theory Spec2Isabelle
  imports Main "HOL-Library.Word"
begin

section \<open>State of the message manager\<close>

text \<open>
  Source: \<^verbatim>\<open>source/general/include/GateMessageManager.hh\<close>.

  The state the macros of the header read and write:
  \<^item> \<open>mMessageLevel\<close>, the member \<^verbatim>\<open>std::map<std::string,int> mMessageLevel\<close>;
  \<^item> \<open>GetTab\<close>, the function-local \<^verbatim>\<open>static std::string s\<close> that
    \<^verbatim>\<open>GetTab()\<close> returns by reference;
  \<^item> \<open>cout\<close>, everything written to \<^verbatim>\<open>std::cout\<close> so far.
\<close>

record state =
  mMessageLevel :: "string \<rightharpoonup> int"
  GetTab :: string
  cout :: string

text \<open>
  A statement either falls through to the next statement, leaves the process through
  \<^verbatim>\<open>exit(n)\<close>, or throws a C++ exception that nothing in the header catches.
\<close>

datatype exn = out_of_range

datatype result =
    Normal (final: state)
  | Exit int (final: state)
  | Throw exn (final: state)

type_synonym stmt = "state \<Rightarrow> result"

text \<open>A brace block: the statements in order; an exit or a throw skips the rest.\<close>

fun block :: "stmt list \<Rightarrow> stmt" where
  "block [] s = Normal s"
| "block (c # cs) s =
     (case c s of
        Normal s' \<Rightarrow> block cs s'
      | Exit n s' \<Rightarrow> Exit n s'
      | Throw e s' \<Rightarrow> Throw e s')"

text \<open>A macro invoked \<open>n\<close> times in a row at the same call site.\<close>

fun repeat :: "nat \<Rightarrow> stmt \<Rightarrow> stmt" where
  "repeat 0 c s = Normal s"
| "repeat (Suc n) c s =
     (case c s of
        Normal s' \<Rightarrow> repeat n c s'
      | Exit k s' \<Rightarrow> Exit k s'
      | Throw e s' \<Rightarrow> Throw e s')"

section \<open>Stream output\<close>

text \<open>\<^verbatim>\<open>std::cout << txt\<close>; \<^verbatim>\<open>Gateendl\<close> is \<^verbatim>\<open>std::endl\<close>, a newline (the flush is not modelled).\<close>

definition cout_write :: "string \<Rightarrow> stmt" where
  "cout_write txt s = Normal (s\<lparr>cout := cout s @ txt\<rparr>)"

definition Gateendl :: string where
  "Gateendl = [CHR 0x0A]"

text \<open>\<^verbatim>\<open>exit(n)\<close> never returns.\<close>

definition exit :: "int \<Rightarrow> stmt" where
  "exit n s = Exit n s"

text \<open>The decimal text that \<^verbatim>\<open>operator<<\<close> writes for an integer.\<close>

definition digit :: "nat \<Rightarrow> char" where
  "digit d = ''0123456789'' ! d"

function show_nat :: "nat \<Rightarrow> string" where
  "show_nat n = (if n < 10 then [digit n] else show_nat (n div 10) @ [digit (n mod 10)])"
  by pat_completeness auto
termination
  by (relation "measure id") auto

declare show_nat.simps [simp del]

definition show_int :: "int \<Rightarrow> string" where
  "show_int i = (if i < 0 then CHR ''-'' # show_nat (nat (- i)) else show_nat (nat i))"

section \<open>Level lookup\<close>

text \<open>
  Modelled from the spec: the header only declares
  \<^verbatim>\<open>static int GetMessageLevel(std::string key)\<close>; its body is not in the header. The
  spec's \<^verbatim>\<open>GetLevel(key) -> level | NotFound\<close> "returns the current threshold, or a
  sentinel indicating the category was never registered". The macros test the sentinel
  with \<^verbatim>\<open>< 0\<close>; it is \<open>-1\<close> here.
\<close>

definition GetMessageLevel :: "state \<Rightarrow> string \<Rightarrow> int" where
  "GetMessageLevel s key = (case mMessageLevel s key of Some l \<Rightarrow> l | None \<Rightarrow> - 1)"

section \<open>Warnings\<close>

text \<open>
  The macros take their \<^verbatim>\<open>MESSAGE\<close> argument as program text and evaluate it where the
  macro body writes it: \<open>MESSAGE\<close> is a function of the state at that point, giving the
  text that the chain of \<^verbatim>\<open><<\<close> produces. \<open>file\<close> and \<open>line\<close> are \<^verbatim>\<open>__FILE__\<close> and
  \<^verbatim>\<open>__LINE__\<close> of the call site.

  \<^verbatim>\<open>
  #define GateWarning(MESSAGE)
    do {
        int lev = GateMessageManager::GetMessageLevel("Warning");
        if (lev >0) {
            std::cout << " <!> *** WARNING *** <!>  " << MESSAGE << Gateendl;
            if (lev >1) {
                std::cout << " <!> *** WARNING *** <!>  In file '"<<__FILE__
                          <<"' ; Line "<<__LINE__<<Gateendl;
            }
        }
    } while (0)
  \<close>
\<close>

definition GateWarning :: "string \<Rightarrow> nat \<Rightarrow> (state \<Rightarrow> string) \<Rightarrow> stmt" where
  "GateWarning file line MESSAGE s =
     (let lev = GetMessageLevel s ''Warning'' in
      if lev > 0 then
        block
          [\<lambda>s. cout_write ('' <!> *** WARNING *** <!>  '' @ MESSAGE s @ Gateendl) s,
           \<lambda>s. if lev > 1 then
                  cout_write ('' <!> *** WARNING *** <!>  In file '' @ [CHR 0x27] @ file
                              @ [CHR 0x27] @ '' ; Line '' @ show_nat line @ Gateendl) s
                else Normal s] s
      else Normal s)"

section \<open>The level filter\<close>

text \<open>
  \<^verbatim>\<open>
  #define GateOnMessageLevel(key,value)
    int __GateOnMessageLevelVariable = GateMessageManager::GetMessageLevel(key);
    if ( __GateOnMessageLevelVariable<0) {
        GateWarning("message type '"<<key<<"' unknown");
    }
    else if (value<= __GateOnMessageLevelVariable)
  \<close>
  The block that follows the macro at its use is the argument \<open>body\<close>.
\<close>

definition GateOnMessageLevel :: "string \<Rightarrow> nat \<Rightarrow> string \<Rightarrow> int \<Rightarrow> stmt \<Rightarrow> stmt" where
  "GateOnMessageLevel file line key val body s =
     (let v = GetMessageLevel s key in
      if v < 0 then
        GateWarning file line
          (\<lambda>_. ''message type '' @ [CHR 0x27] @ key @ [CHR 0x27] @ '' unknown'') s
      else if val \<le> v then body s
      else Normal s)"

text \<open>\<^verbatim>\<open>#define GateMessageCode(key, value) "[" << key << "-" << value << "] "\<close>\<close>

definition GateMessageCode :: "string \<Rightarrow> int \<Rightarrow> string" where
  "GateMessageCode key val = ''['' @ key @ ''-'' @ show_int val @ ''] ''"

section \<open>Informational messages\<close>

text \<open>
  \<^verbatim>\<open>GateMessageSpace(value)\<close> is \<^verbatim>\<open>GateMessageManager::GetSpace(value)\<close>, declared in the
  header as \<^verbatim>\<open>static std::string GetSpace(int n)\<close> with no body there. It is the
  parameter \<open>GetSpace\<close> of the macros below, a function of its argument \<open>n\<close>.

  \<^verbatim>\<open>
  #define GateMessage(key,value,MESSAGE)
    do {
      GateOnMessageLevel(key,value) {
          std::cout << GateMessageCode(key,value) << GateMessageSpace(value) << MESSAGE;
      }
    } while (0)
  \<close>
\<close>

definition GateMessage ::
  "(int \<Rightarrow> string) \<Rightarrow> string \<Rightarrow> nat \<Rightarrow> string \<Rightarrow> int \<Rightarrow> (state \<Rightarrow> string) \<Rightarrow> stmt" where
  "GateMessage GetSpace file line key val MESSAGE =
     GateOnMessageLevel file line key val
       (block [\<lambda>s. cout_write (GateMessageCode key val @ GetSpace val @ MESSAGE s) s])"

definition GateMessageCont :: "string \<Rightarrow> nat \<Rightarrow> string \<Rightarrow> int \<Rightarrow> (state \<Rightarrow> string) \<Rightarrow> stmt" where
  "GateMessageCont file line key val MESSAGE =
     GateOnMessageLevel file line key val
       (block [\<lambda>s. cout_write (MESSAGE s) s])"

section \<open>The tabulation\<close>

text \<open>
  \<^verbatim>\<open>substr(pos, n)\<close> of \<^verbatim>\<open>std::string\<close>: throws \<^verbatim>\<open>std::out_of_range\<close> when
  \<^verbatim>\<open>pos > size()\<close>, and otherwise returns the characters from \<open>pos\<close>, \<open>n\<close> of them or
  as many as there are. \<^verbatim>\<open>size_type\<close> is an unsigned 64-bit integer.
\<close>

type_synonym size_t = "64 word"

definition substr :: "string \<Rightarrow> size_t \<Rightarrow> size_t \<Rightarrow> exn + string" where
  "substr str pos n =
     (if unat pos > length str then Inl out_of_range
      else Inr (take (min (unat n) (length str - unat pos)) (drop (unat pos) str)))"

text \<open>
  \<^verbatim>\<open>
  static void IncTab() { GetTab() += std::string("   "); }
  static void DecTab() { GetTab() = GetTab().substr(0,GetTab().length()-3); }
  static void ResetTab() { GetTab() = std::string(""); }
  \<close>
  \<^verbatim>\<open>length()\<close> is a \<^verbatim>\<open>size_type\<close>, so \<^verbatim>\<open>length()-3\<close> wraps around below 3.
\<close>

definition IncTab :: stmt where
  "IncTab s = Normal (s\<lparr>GetTab := GetTab s @ ''   ''\<rparr>)"

definition DecTab :: stmt where
  "DecTab s =
     (case substr (GetTab s) 0 (of_nat (length (GetTab s)) - 3) of
        Inl e \<Rightarrow> Throw e s
      | Inr t \<Rightarrow> Normal (s\<lparr>GetTab := t\<rparr>))"

definition ResetTab :: stmt where
  "ResetTab s = Normal (s\<lparr>GetTab := []\<rparr>)"

text \<open>
  \<^verbatim>\<open>
  #define GateMessageInc(key,value,MESSAGE)
    do {
      GateOnMessageLevel(key,value) {
          std::cout << GateMessageCode(key,value) << GateMessageSpace(value) << MESSAGE;
          GateMessageManager::IncTab();
      }
    } while (0)

  #define GateMessageDec(key,value,MESSAGE)
    do {
      GateOnMessageLevel(key,value) {
          GateMessageManager::DecTab();
          std::cout << GateMessageCode(key,value) << GateMessageSpace(value) << MESSAGE;
      }
    } while (0)

  #define GateDecTab(key,value)
    do { GateOnMessageLevel(key,value) { GateMessageManager::DecTab(); } } while (0)
  #define GateIncTab(key,value)
    do { GateOnMessageLevel(key,value) { GateMessageManager::IncTab(); } } while (0)
  #define GateResetTab()
    do { GateMessageManager::ResetTab(); } while (0)
  \<close>
\<close>

definition GateMessageInc ::
  "(int \<Rightarrow> string) \<Rightarrow> string \<Rightarrow> nat \<Rightarrow> string \<Rightarrow> int \<Rightarrow> (state \<Rightarrow> string) \<Rightarrow> stmt" where
  "GateMessageInc GetSpace file line key val MESSAGE =
     GateOnMessageLevel file line key val
       (block [\<lambda>s. cout_write (GateMessageCode key val @ GetSpace val @ MESSAGE s) s,
               IncTab])"

definition GateMessageDec ::
  "(int \<Rightarrow> string) \<Rightarrow> string \<Rightarrow> nat \<Rightarrow> string \<Rightarrow> int \<Rightarrow> (state \<Rightarrow> string) \<Rightarrow> stmt" where
  "GateMessageDec GetSpace file line key val MESSAGE =
     GateOnMessageLevel file line key val
       (block [DecTab,
               \<lambda>s. cout_write (GateMessageCode key val @ GetSpace val @ MESSAGE s) s])"

definition GateDecTab :: "string \<Rightarrow> nat \<Rightarrow> string \<Rightarrow> int \<Rightarrow> stmt" where
  "GateDecTab file line key val = GateOnMessageLevel file line key val (block [DecTab])"

definition GateIncTab :: "string \<Rightarrow> nat \<Rightarrow> string \<Rightarrow> int \<Rightarrow> stmt" where
  "GateIncTab file line key val = GateOnMessageLevel file line key val (block [IncTab])"

definition GateResetTab :: stmt where
  "GateResetTab = block [ResetTab]"

text \<open>
  The indentation tracker as the spec words it: a depth counter, \<open>Increment\<close> adds one
  unit, \<open>Decrement\<close> takes one away and stops at zero. \<open>clamped_depth\<close> follows the
  spec; \<open>tab_call\<close> runs the call on the code.
\<close>

datatype tab_op = Increment | Decrement

fun tab_call :: "tab_op \<Rightarrow> stmt" where
  "tab_call Increment = IncTab"
| "tab_call Decrement = DecTab"

fun clamped_depth :: "nat \<Rightarrow> tab_op list \<Rightarrow> nat" where
  "clamped_depth d [] = d"
| "clamped_depth d (Increment # ops) = clamped_depth (d + 1) ops"
| "clamped_depth d (Decrement # ops) = clamped_depth (if d = 0 then 0 else d - 1) ops"

section \<open>Fatal errors\<close>

text \<open>
  \<^verbatim>\<open>strrchr(str, c)\<close>: the rest of \<open>str\<close> from the last \<open>c\<close> in it, or a null pointer.
  \<^verbatim>\<open>
  #define __SHORT_FILE__ (strrchr(__FILE__, '/') ? strrchr(__FILE__, '/') + 1 : __FILE__)
  \<close>
\<close>

fun strrchr :: "string \<Rightarrow> char \<Rightarrow> string option" where
  "strrchr [] c = None"
| "strrchr (x # xs) c =
     (case strrchr xs c of
        Some r \<Rightarrow> Some r
      | None \<Rightarrow> if x = c then Some (x # xs) else None)"

definition SHORT_FILE :: "string \<Rightarrow> string" where
  "SHORT_FILE file =
     (case strrchr file CHR ''/'' of Some r \<Rightarrow> drop 1 r | None \<Rightarrow> file)"

text \<open>
  \<^verbatim>\<open>G4Exception\<close> and the severity \<^verbatim>\<open>FatalException\<close> belong to Geant4; they are
  parameters of the macro.
  \<^verbatim>\<open>
  #define GateError(MESSAGE)
    do {
        std::ostringstream s_;
        s_ << MESSAGE;
        std::ostringstream f_;
        f_ << __SHORT_FILE__ << " (l."<<__LINE__<<"): ";
        G4String str_f = f_.str();
        G4String str_s = s_.str();
        std::cout << str_f << str_s << Gateendl;
        exit(-1);
        G4Exception(str_f,str_s, FatalException," ");
    } while (0)
  \<close>
\<close>

definition GateError ::
  "(string \<Rightarrow> string \<Rightarrow> 'sev \<Rightarrow> string \<Rightarrow> stmt) \<Rightarrow> 'sev \<Rightarrow>
   string \<Rightarrow> nat \<Rightarrow> (state \<Rightarrow> string) \<Rightarrow> stmt" where
  "GateError G4Exception FatalException file line MESSAGE s =
     (let str_s = MESSAGE s;
          str_f = SHORT_FILE file @ '' (l.'' @ show_nat line @ ''): ''
      in block
           [cout_write (str_f @ str_s @ Gateendl),
            exit (- 1),
            G4Exception str_f str_s FatalException '' ''] s)"

text \<open>
  What a reader of the output sees of a text: the number of places at which \<open>pat\<close>
  stands in \<open>txt\<close>.
\<close>

fun occurrences :: "string \<Rightarrow> string \<Rightarrow> nat" where
  "occurrences pat [] = (if pat = [] then 1 else 0)"
| "occurrences pat (c # cs) =
     (if take (length pat) (c # cs) = pat then 1 else 0) + occurrences pat cs"

section \<open>Facts about the building blocks\<close>

lemma GetMessageLevel_registered:
  "mMessageLevel s key = Some T \<Longrightarrow> GetMessageLevel s key = T"
  by (simp add: GetMessageLevel_def)

lemma GetMessageLevel_unregistered:
  "mMessageLevel s key = None \<Longrightarrow> GetMessageLevel s key = - 1"
  by (simp add: GetMessageLevel_def)

lemma GetMessageLevel_cout [simp]:
  "GetMessageLevel (s\<lparr>cout := x\<rparr>) key = GetMessageLevel s key"
  by (simp add: GetMessageLevel_def)

lemma GetMessageLevel_GetTab [simp]:
  "GetMessageLevel (s\<lparr>GetTab := x\<rparr>) key = GetMessageLevel s key"
  by (simp add: GetMessageLevel_def)

text \<open>What one warning call writes, by the level of \<open>Warning\<close>.\<close>

lemma GateWarning_run:
  "GateWarning file line MESSAGE s =
     Normal (s\<lparr>cout := cout s @
       (if 0 < GetMessageLevel s ''Warning''
        then '' <!> *** WARNING *** <!>  '' @ MESSAGE s @ Gateendl @
             (if 1 < GetMessageLevel s ''Warning''
              then '' <!> *** WARNING *** <!>  In file '' @ [CHR 0x27] @ file
                   @ [CHR 0x27] @ '' ; Line '' @ show_nat line @ Gateendl
              else [])
        else [])\<rparr>)"
  by (simp add: GateWarning_def Let_def cout_write_def)

text \<open>The three branches of the level filter.\<close>

lemma GateOnMessageLevel_unknown:
  "GetMessageLevel s key < 0 \<Longrightarrow>
   GateOnMessageLevel file line key val body s =
     GateWarning file line
       (\<lambda>_. ''message type '' @ [CHR 0x27] @ key @ [CHR 0x27] @ '' unknown'') s"
  by (simp add: GateOnMessageLevel_def Let_def)

lemma GateOnMessageLevel_known:
  "0 \<le> GetMessageLevel s key \<Longrightarrow>
   GateOnMessageLevel file line key val body s =
     (if val \<le> GetMessageLevel s key then body s else Normal s)"
  by (simp add: GateOnMessageLevel_def Let_def)

lemma GateOnMessageLevel_above:
  "0 \<le> GetMessageLevel s key \<Longrightarrow> GetMessageLevel s key < val \<Longrightarrow>
   GateOnMessageLevel file line key val body s = Normal s"
  by (simp add: GateOnMessageLevel_def Let_def)

text \<open>
  \<^verbatim>\<open>length()-3\<close> in \<^verbatim>\<open>size_type\<close>: below 3 the difference wraps around to a count
  larger than the string, and \<^verbatim>\<open>substr\<close> then returns the whole string.
\<close>

lemma unat_length_minus_3:
  fixes n :: nat
  assumes "n < 2 ^ 64"
  shows "min (unat (of_nat n - 3 :: 64 word)) n = (if n < 3 then n else n - 3)"
proof (cases "n < 3")
  case True
  then consider "n = 0" | "n = 1" | "n = 2" by linarith
  then show ?thesis
    by cases (simp_all add: unsigned_minus_1_eq_mask mask_eq_exp_minus_1)
next
  case False
  then have "3 \<le> n" by simp
  have n: "unat (of_nat n :: 64 word) = n"
    using assms by (simp add: unat_of_nat)
  have "(3 :: 64 word) \<le> of_nat n"
    using \<open>3 \<le> n\<close> by (simp add: word_le_nat_alt n)
  then have "unat (of_nat n - 3 :: 64 word) = n - 3"
    by (simp add: unat_sub n)
  then show ?thesis using False by simp
qed

lemma DecTab_run:
  assumes "length (GetTab s) < 2 ^ 64"
  shows "DecTab s =
     Normal (s\<lparr>GetTab := (if length (GetTab s) < 3 then GetTab s
                           else take (length (GetTab s) - 3) (GetTab s))\<rparr>)"
  using unat_length_minus_3 [OF assms]
  by (simp add: DecTab_def substr_def)

lemma replicate_three: "replicate (3 * d) c @ [c, c, c] = replicate (3 * (d + 1)) c"
proof -
  have "replicate (3 * (d + 1)) c = replicate (3 * d) c @ replicate 3 c"
    by (simp add: replicate_add [symmetric])
  then show ?thesis by (simp add: numeral_3_eq_3)
qed

text \<open>
  A run of tabulation calls from a tabulation of \<open>d\<close> units: by induction on the calls,
  with the state and the depth generalised.
\<close>

lemma tab_calls_run:
  "GetTab s = replicate (3 * d) CHR '' '' \<Longrightarrow> 3 * (d + length ops) < 2 ^ 64 \<Longrightarrow>
   block (map tab_call ops) s =
     Normal (s\<lparr>GetTab := replicate (3 * clamped_depth d ops) CHR '' ''\<rparr>)"
proof (induction ops arbitrary: s d)
  case Nil
  then show ?case by simp
next
  case (Cons c ops)
  show ?case
  proof (cases c)
    case Increment
    let ?s = "s\<lparr>GetTab := replicate (3 * (d + 1)) CHR '' ''\<rparr>"
    have step: "IncTab s = Normal ?s"
      using Cons.prems(1) replicate_three [of d "CHR '' ''"] by (simp add: IncTab_def)
    have "block (map tab_call ops) ?s =
        Normal (?s\<lparr>GetTab := replicate (3 * clamped_depth (d + 1) ops) CHR '' ''\<rparr>)"
      using Cons.prems(2) by (intro Cons.IH) simp_all
    with step Increment show ?thesis by simp
  next
    case Decrement
    let ?d = "if d = 0 then 0 else d - 1"
    let ?s = "s\<lparr>GetTab := replicate (3 * ?d) CHR '' ''\<rparr>"
    have len: "length (GetTab s) < 2 ^ 64"
      using Cons.prems by simp
    have step: "DecTab s = Normal ?s"
      using Cons.prems(1) by (simp add: DecTab_run [OF len] diff_mult_distrib2)
    have "3 * (?d + length ops) \<le> 3 * (d + length (c # ops))"
      by (cases d) simp_all
    then have bound: "3 * (?d + length ops) < 2 ^ 64"
      using Cons.prems(2) by (rule le_less_trans)
    have "block (map tab_call ops) ?s =
        Normal (?s\<lparr>GetTab := replicate (3 * clamped_depth ?d ops) CHR '' ''\<rparr>)"
      by (rule Cons.IH [OF _ bound]) simp
    with step Decrement show ?thesis by simp
  qed
qed

text \<open>\<^verbatim>\<open>strrchr\<close> finds the last occurrence: nothing after it is the character again.\<close>

lemma strrchr_None: "strrchr str c = None \<longleftrightarrow> c \<notin> set str"
  by (induction str) (auto split: option.splits)

lemma strrchr_Some:
  "strrchr str c = Some r \<Longrightarrow> \<exists>p. str = p @ c # drop 1 r \<and> c \<notin> set (drop 1 r)"
proof (induction str arbitrary: r)
  case Nil
  then show ?case by simp
next
  case (Cons x xs)
  show ?case
  proof (cases "strrchr xs c")
    case None
    with Cons.prems have "x = c" "r = x # xs"
      by (auto split: if_splits)
    moreover from None have "c \<notin> set xs" by (simp add: strrchr_None)
    ultimately show ?thesis by auto
  next
    case (Some r')
    with Cons.prems have "r' = r" by simp
    with Some Cons.IH obtain p where "xs = p @ c # drop 1 r" "c \<notin> set (drop 1 r)"
      by blast
    then have "x # xs = (x # p) @ c # drop 1 r" by simp
    with \<open>c \<notin> set (drop 1 r)\<close> show ?thesis by blast
  qed
qed

lemma SHORT_FILE_no_slash: "CHR ''/'' \<notin> set (SHORT_FILE file)"
  by (auto simp: SHORT_FILE_def strrchr_None split: option.splits dest: strrchr_Some)

lemma SHORT_FILE_suffix:
  "\<exists>dir. file = dir @ SHORT_FILE file \<and> (dir = [] \<or> last dir = CHR ''/'')"
proof (cases "strrchr file CHR ''/''")
  case None
  then show ?thesis by (simp add: SHORT_FILE_def)
next
  case (Some r)
  then obtain p where "file = p @ CHR ''/'' # drop 1 r"
    using strrchr_Some by blast
  then have "file = (p @ [CHR ''/'']) @ drop 1 r" by simp
  moreover have "last (p @ [CHR ''/'']) = CHR ''/''" by simp
  ultimately show ?thesis
    using Some unfolding SHORT_FILE_def by (metis option.simps(5))
qed

section \<open>The level gate of informational messages\<close>

text \<open>
  C1. For a key registered in the message-level registry with current threshold \<open>T\<close>
  (the level lookup returns \<open>T\<close>, a level, so not negative) and a requested level \<open>L\<close>,
  the informational message call for \<open>(key, L)\<close> is emitted if and only if \<open>L \<le> T\<close>:
  when \<open>L \<le> T\<close> (also when \<open>L = T\<close>) the call appends the code prefix, the spaces and
  the payload to the output, and otherwise it changes nothing; so the output grows
  exactly when \<open>L \<le> T\<close>. This holds for every integer \<open>L\<close>, so for every \<open>L\<close> in
  [0,255].
\<close>

theorem GateMessage_emits_iff_le:
  assumes "GetMessageLevel s key = T" and "0 \<le> T"
  shows "GateMessage GetSpace file line key L MESSAGE s =
           Normal (if L \<le> T
                   then s\<lparr>cout := cout s @ GateMessageCode key L @ GetSpace L @ MESSAGE s\<rparr>
                   else s)
         \<and> (cout (final (GateMessage GetSpace file line key L MESSAGE s)) \<noteq> cout s) = (L \<le> T)"
proof -
  have run: "GateMessage GetSpace file line key L MESSAGE s =
           Normal (if L \<le> T
                   then s\<lparr>cout := cout s @ GateMessageCode key L @ GetSpace L @ MESSAGE s\<rparr>
                   else s)"
    using assms by (simp add: GateMessage_def GateOnMessageLevel_known cout_write_def)
  have "GateMessageCode key L \<noteq> []"
    by (simp add: GateMessageCode_def)
  with run show ?thesis by simp
qed

text \<open>
  \<open>Core\<close> registered at level 5: a message of level 5 is written, one of level 6 is not.
\<close>

theorem GateMessage_emits_iff_le_witness:
  "GetMessageLevel \<lparr>mMessageLevel = [''Core'' \<mapsto> 5], GetTab = [], cout = []\<rparr> ''Core'' = 5
   \<and> (0::int) \<le> 5
   \<and> GateMessage (\<lambda>n. replicate (nat n) CHR '' '') ''a/b.cc'' 12 ''Core'' 5 (\<lambda>_. ''hello'')
        \<lparr>mMessageLevel = [''Core'' \<mapsto> 5], GetTab = [], cout = []\<rparr>
       = Normal \<lparr>mMessageLevel = [''Core'' \<mapsto> 5], GetTab = [], cout = ''[Core-5]      hello''\<rparr>
   \<and> GateMessage (\<lambda>n. replicate (nat n) CHR '' '') ''a/b.cc'' 12 ''Core'' 6 (\<lambda>_. ''hello'')
        \<lparr>mMessageLevel = [''Core'' \<mapsto> 5], GetTab = [], cout = []\<rparr>
       = Normal \<lparr>mMessageLevel = [''Core'' \<mapsto> 5], GetTab = [], cout = []\<rparr>"
proof -
  have known: "GetMessageLevel \<lparr>mMessageLevel = [''Core'' \<mapsto> 5], GetTab = [], cout = []\<rparr>
                 ''Core'' = 5"
    by (simp add: GetMessageLevel_def)
  have five: "replicate 5 CHR '' '' = ''     ''"
    by (simp add: eval_nat_numeral)
  from GateMessage_emits_iff_le
          [of "\<lparr>mMessageLevel = [''Core'' \<mapsto> 5], GetTab = [], cout = []\<rparr>" "''Core''" 5
              "\<lambda>n. replicate (nat n) CHR '' ''" "''a/b.cc''" 12 5 "\<lambda>_. ''hello''"]
       GateMessage_emits_iff_le
          [of "\<lparr>mMessageLevel = [''Core'' \<mapsto> 5], GetTab = [], cout = []\<rparr>" "''Core''" 5
              "\<lambda>n. replicate (nat n) CHR '' ''" "''a/b.cc''" 12 6 "\<lambda>_. ''hello''"]
  show ?thesis
    using known
    by (simp add: GateMessageCode_def show_int_def show_nat.simps digit_def five)
qed

section \<open>Unknown message types\<close>

text \<open>
  C2 (as amended). For a key that was never registered (the level lookup reports it
  unknown, a negative level), informational message calls emit no message and neither
  throw nor leave the process: \<open>n\<close> calls in a row return normally and add to the output
  nothing but \<open>n\<close> copies of what the warning macro writes for "message type 'key'
  unknown". There is one warning for each call when the level of \<open>Warning\<close> is at least
  1, with its file-and-line line when that level is at least 2, and none when that level
  is below 1; the warning is not limited to the first call.
\<close>

theorem unknown_key_warns_on_every_call:
  assumes "GetMessageLevel s key < 0"
  shows "repeat n (GateMessage GetSpace file line key val MESSAGE) s =
     Normal (s\<lparr>cout := cout s @ concat (replicate n
       (if 0 < GetMessageLevel s ''Warning''
        then '' <!> *** WARNING *** <!>  message type '' @ [CHR 0x27] @ key @ [CHR 0x27]
             @ '' unknown'' @ Gateendl @
             (if 1 < GetMessageLevel s ''Warning''
              then '' <!> *** WARNING *** <!>  In file '' @ [CHR 0x27] @ file
                   @ [CHR 0x27] @ '' ; Line '' @ show_nat line @ Gateendl
              else [])
        else []))\<rparr>)"
  using assms
proof (induction n arbitrary: s)
  case 0
  then show ?case by simp
next
  case (Suc n)
  let ?W = "if 0 < GetMessageLevel s ''Warning''
        then '' <!> *** WARNING *** <!>  message type '' @ [CHR 0x27] @ key @ [CHR 0x27]
             @ '' unknown'' @ Gateendl @
             (if 1 < GetMessageLevel s ''Warning''
              then '' <!> *** WARNING *** <!>  In file '' @ [CHR 0x27] @ file
                   @ [CHR 0x27] @ '' ; Line '' @ show_nat line @ Gateendl
              else [])
        else []"
  have one: "GateMessage GetSpace file line key val MESSAGE s =
               Normal (s\<lparr>cout := cout s @ ?W\<rparr>)"
    using Suc.prems by (simp add: GateMessage_def GateOnMessageLevel_unknown GateWarning_run)
  have "GetMessageLevel (s\<lparr>cout := cout s @ ?W\<rparr>) key < 0"
    using Suc.prems by simp
  from Suc.IH [OF this] one show ?case by simp
qed

text \<open>Three calls for the unregistered \<open>Physics\<close>, with \<open>Warning\<close> at level 1.\<close>

theorem unknown_key_warns_on_every_call_witness:
  "GetMessageLevel \<lparr>mMessageLevel = [''Warning'' \<mapsto> 1], GetTab = [], cout = []\<rparr> ''Physics''
     < 0
   \<and> repeat 3 (GateMessage (\<lambda>n. replicate (nat n) CHR '' '') ''a.cc'' 7 ''Physics'' 0
                 (\<lambda>_. ''step''))
         \<lparr>mMessageLevel = [''Warning'' \<mapsto> 1], GetTab = [], cout = []\<rparr>
       = Normal \<lparr>mMessageLevel = [''Warning'' \<mapsto> 1], GetTab = [],
           cout = '' <!> *** WARNING *** <!>  message type 'Physics' unknown'' @ [CHR 0x0A]
                @ '' <!> *** WARNING *** <!>  message type 'Physics' unknown'' @ [CHR 0x0A]
                @ '' <!> *** WARNING *** <!>  message type 'Physics' unknown'' @ [CHR 0x0A]\<rparr>"
  using unknown_key_warns_on_every_call
          [of "\<lparr>mMessageLevel = [''Warning'' \<mapsto> 1], GetTab = [], cout = []\<rparr>"
              "''Physics''" 3 "\<lambda>n. replicate (nat n) CHR '' ''" "''a.cc''" 7 0
              "\<lambda>_. ''step''"]
  by (simp add: GetMessageLevel_def Gateendl_def numeral_3_eq_3)

text \<open>
  The claim as stated fails: two calls for the same unregistered key, with \<open>Warning\<close> at level
  1, leave two "message type unknown" warnings in the output, not one.
\<close>

theorem unknown_key_warns_twice:
  "occurrences ''message type 'Physics' unknown''
     (cout (final (repeat 2 (GateMessage (\<lambda>n. replicate (nat n) CHR '' '') ''a.cc'' 7
                               ''Physics'' 0 (\<lambda>_. ''step''))
                     \<lparr>mMessageLevel = [''Warning'' \<mapsto> 1], GetTab = [], cout = []\<rparr>)))
   = 2"
  by (simp add: numeral_2_eq_2 GateMessage_def GateOnMessageLevel_def GetMessageLevel_def
      GateWarning_def cout_write_def Gateendl_def Let_def)

section \<open>The tabulation and the text of a message\<close>

text \<open>
  C3 (the code at the failing input). \<open>Core\<close> is registered at level 5. After three
  \<^verbatim>\<open>IncTab\<close> calls the tabulation holds nine spaces, three units; the message written
  then is the code prefix, \<open>GetSpace 0\<close> and the payload. After \<^verbatim>\<open>GateResetTab\<close> the
  next message has the same prefix: the text of a message is the same whatever the
  tabulation holds, so the three units are in neither.
\<close>

theorem tab_is_never_written:
  "block [IncTab, IncTab, IncTab,
          GateMessage GetSpace file line ''Core'' 0 (\<lambda>_. ''in''),
          GateResetTab,
          GateMessage GetSpace file line ''Core'' 0 (\<lambda>_. ''out'')]
     \<lparr>mMessageLevel = [''Core'' \<mapsto> 5], GetTab = [], cout = []\<rparr>
   = Normal \<lparr>mMessageLevel = [''Core'' \<mapsto> 5], GetTab = [],
             cout = ''[Core-0] '' @ GetSpace 0 @ ''in'' @ ''[Core-0] '' @ GetSpace 0 @ ''out''\<rparr>
   \<and> block [IncTab, IncTab, IncTab]
       \<lparr>mMessageLevel = [''Core'' \<mapsto> 5], GetTab = [], cout = []\<rparr>
     = Normal \<lparr>mMessageLevel = [''Core'' \<mapsto> 5], GetTab = ''         '', cout = []\<rparr>"
  by (simp add: IncTab_def GateResetTab_def ResetTab_def GateMessage_def GateOnMessageLevel_def
      GetMessageLevel_def cout_write_def GateMessageCode_def show_int_def show_nat.simps
      digit_def Let_def)

section \<open>Warnings by level\<close>

text \<open>
  C4. For every payload and every level \<open>lev\<close> of the \<open>Warning\<close> entry: at level 0 the
  warning call writes nothing; at level 1 or more it writes the payload after the
  WARNING marker; at level 2 or more it then writes a second line with the file name
  and the line number of the call site. In every case the call returns normally: it
  neither leaves the process nor throws.
\<close>

theorem GateWarning_by_level:
  assumes "GetMessageLevel s ''Warning'' = lev" and "0 \<le> lev"
  shows "GateWarning file line MESSAGE s =
     Normal (if lev = 0 then s
             else s\<lparr>cout := cout s @ '' <!> *** WARNING *** <!>  '' @ MESSAGE s @ Gateendl @
                    (if 2 \<le> lev
                     then '' <!> *** WARNING *** <!>  In file '' @ [CHR 0x27] @ file
                          @ [CHR 0x27] @ '' ; Line '' @ show_nat line @ Gateendl
                     else [])\<rparr>)"
  using assms by (simp add: GateWarning_run)

text \<open>The same warning at the levels 0, 1 and 2.\<close>

theorem GateWarning_by_level_witness:
  "GetMessageLevel \<lparr>mMessageLevel = [''Warning'' \<mapsto> 0], GetTab = [], cout = []\<rparr> ''Warning'' = 0
   \<and> GetMessageLevel \<lparr>mMessageLevel = [''Warning'' \<mapsto> 1], GetTab = [], cout = []\<rparr> ''Warning'' = 1
   \<and> GetMessageLevel \<lparr>mMessageLevel = [''Warning'' \<mapsto> 2], GetTab = [], cout = []\<rparr> ''Warning'' = 2
   \<and> GateWarning ''src/a.cc'' 12 (\<lambda>_. ''low gain'')
         \<lparr>mMessageLevel = [''Warning'' \<mapsto> 0], GetTab = [], cout = []\<rparr>
       = Normal \<lparr>mMessageLevel = [''Warning'' \<mapsto> 0], GetTab = [], cout = []\<rparr>
   \<and> GateWarning ''src/a.cc'' 12 (\<lambda>_. ''low gain'')
         \<lparr>mMessageLevel = [''Warning'' \<mapsto> 1], GetTab = [], cout = []\<rparr>
       = Normal \<lparr>mMessageLevel = [''Warning'' \<mapsto> 1], GetTab = [],
                 cout = '' <!> *** WARNING *** <!>  low gain'' @ [CHR 0x0A]\<rparr>
   \<and> GateWarning ''src/a.cc'' 12 (\<lambda>_. ''low gain'')
         \<lparr>mMessageLevel = [''Warning'' \<mapsto> 2], GetTab = [], cout = []\<rparr>
       = Normal \<lparr>mMessageLevel = [''Warning'' \<mapsto> 2], GetTab = [],
                 cout = '' <!> *** WARNING *** <!>  low gain'' @ [CHR 0x0A]
                        @ '' <!> *** WARNING *** <!>  In file 'src/a.cc' ; Line 12''
                        @ [CHR 0x0A]\<rparr>"
  using GateWarning_by_level
          [of "\<lparr>mMessageLevel = [''Warning'' \<mapsto> 0], GetTab = [], cout = []\<rparr>" 0
              "''src/a.cc''" 12 "\<lambda>_. ''low gain''"]
        GateWarning_by_level
          [of "\<lparr>mMessageLevel = [''Warning'' \<mapsto> 1], GetTab = [], cout = []\<rparr>" 1
              "''src/a.cc''" 12 "\<lambda>_. ''low gain''"]
        GateWarning_by_level
          [of "\<lparr>mMessageLevel = [''Warning'' \<mapsto> 2], GetTab = [], cout = []\<rparr>" 2
              "''src/a.cc''" 12 "\<lambda>_. ''low gain''"]
  by (simp add: GetMessageLevel_def Gateendl_def show_nat.simps digit_def)

section \<open>Fatal errors of an object\<close>

text \<open>
  C5. For every payload, every call site and every state of the registry (no level is
  consulted), the object-scoped fatal-error macro appends to the output, once, the file
  name without its path, the line number, the payload and a newline, and then leaves
  the process with \<^verbatim>\<open>exit(-1)\<close>. The file name written has no \<open>/\<close> in it and is what
  follows the last \<open>/\<close> of \<^verbatim>\<open>__FILE__\<close>, or all of it when there is none.
\<close>

theorem GateError_writes_once_then_exits:
  "GateError G4Exception FatalException file line MESSAGE s =
     Exit (- 1) (s\<lparr>cout := cout s @ SHORT_FILE file @ '' (l.'' @ show_nat line @ ''): ''
                                 @ MESSAGE s @ Gateendl\<rparr>)
   \<and> CHR ''/'' \<notin> set (SHORT_FILE file)
   \<and> (\<exists>dir. file = dir @ SHORT_FILE file \<and> (dir = [] \<or> last dir = CHR ''/''))"
proof -
  have "GateError G4Exception FatalException file line MESSAGE s =
     Exit (- 1) (s\<lparr>cout := cout s @ SHORT_FILE file @ '' (l.'' @ show_nat line @ ''): ''
                                 @ MESSAGE s @ Gateendl\<rparr>)"
    by (simp add: GateError_def Let_def cout_write_def exit_def)
  then show ?thesis
    using SHORT_FILE_no_slash [of "file"] SHORT_FILE_suffix [of "file"] by blast
qed

text \<open>
  C6. In the object-scoped fatal-error macro the call of \<^verbatim>\<open>G4Exception\<close> is never
  reached, because \<^verbatim>\<open>exit(-1)\<close> stands before it: whatever \<^verbatim>\<open>G4Exception\<close> would do, the
  macro does the same, and it does what the macro without that call does.
\<close>

theorem GateError_never_calls_G4Exception:
  "GateError G4Exception FatalException file line MESSAGE s =
     GateError G4Exception' FatalException' file line MESSAGE s
   \<and> GateError G4Exception FatalException file line MESSAGE s =
     block [cout_write (SHORT_FILE file @ '' (l.'' @ show_nat line @ ''): '' @ MESSAGE s
                        @ Gateendl),
            exit (- 1)] s"
  by (simp add: GateError_def Let_def cout_write_def exit_def)

section \<open>The depth of the tabulation\<close>

text \<open>
  C7. For every finite sequence of Increment and Decrement calls (short enough for the
  tabulation to fit a \<^verbatim>\<open>size_type\<close>), starting from the empty tabulation, no call
  throws, and the tabulation afterwards is three spaces for each unit of the depth
  counter that stops at zero: the depth never goes below zero. A Decrement at depth
  zero, also before any Increment, returns normally and leaves the tabulation empty.
\<close>

theorem tab_depth_clamped_at_zero:
  assumes "GetTab s = []" and "3 * length ops < 2 ^ 64"
  shows "block (map tab_call ops) s =
           Normal (s\<lparr>GetTab := replicate (3 * clamped_depth 0 ops) CHR '' ''\<rparr>)
       \<and> DecTab s = Normal s"
proof -
  have "block (map tab_call ops) s =
           Normal (s\<lparr>GetTab := replicate (3 * clamped_depth 0 ops) CHR '' ''\<rparr>)"
    using assms by (intro tab_calls_run) simp_all
  moreover have "DecTab s = Normal s"
    using assms(1) by (simp add: DecTab_run)
  ultimately show ?thesis by simp
qed

text \<open>
  A Decrement first, then two up, three down and one up: one unit is left.
\<close>

theorem tab_depth_clamped_at_zero_witness:
  "GetTab \<lparr>mMessageLevel = Map.empty, GetTab = [], cout = []\<rparr> = []
   \<and> 3 * length [Decrement, Increment, Increment, Decrement, Decrement, Decrement, Increment]
       < (2::nat) ^ 64
   \<and> block (map tab_call
              [Decrement, Increment, Increment, Decrement, Decrement, Decrement, Increment])
         \<lparr>mMessageLevel = Map.empty, GetTab = [], cout = []\<rparr>
       = Normal \<lparr>mMessageLevel = Map.empty, GetTab = ''   '', cout = []\<rparr>
   \<and> DecTab \<lparr>mMessageLevel = Map.empty, GetTab = [], cout = []\<rparr>
       = Normal \<lparr>mMessageLevel = Map.empty, GetTab = [], cout = []\<rparr>"
proof -
  have empty_tab: "GetTab \<lparr>mMessageLevel = Map.empty, GetTab = [], cout = []\<rparr> = []"
    by simp
  have short: "3 * length [Decrement, Increment, Increment, Decrement, Decrement, Decrement,
                           Increment] < (2::nat) ^ 64"
    by simp
  have depth: "replicate (3 * clamped_depth 0 [Decrement, Increment, Increment, Decrement,
                             Decrement, Decrement, Increment]) CHR '' '' = ''   ''"
    by (simp add: numeral_3_eq_3)
  from tab_depth_clamped_at_zero [OF empty_tab short] show ?thesis
    unfolding depth using short by (simp del: block.simps list.map)
qed

section \<open>The variants of the informational message\<close>

text \<open>
  C8. When the level filter lets the call through: the continuation variant appends the
  payload alone, with no prefix and no newline of its own; the increment variant writes
  the message, composed in the state before the change, and then adds a unit to the
  tabulation; the decrement variant first takes a unit off the tabulation and then
  writes the message, composed in the state after the change.
\<close>

theorem message_variants_order:
  assumes "GetMessageLevel s key = T" and "0 \<le> T" and "L \<le> T"
    and "length (GetTab s) < 2 ^ 64"
  shows "GateMessageCont file line key L MESSAGE s = Normal (s\<lparr>cout := cout s @ MESSAGE s\<rparr>)
       \<and> GateMessageInc GetSpace file line key L MESSAGE s =
           Normal (s\<lparr>cout := cout s @ GateMessageCode key L @ GetSpace L @ MESSAGE s,
                     GetTab := GetTab s @ ''   ''\<rparr>)
       \<and> GateMessageDec GetSpace file line key L MESSAGE s =
           (let s1 = s\<lparr>GetTab := (if length (GetTab s) < 3 then GetTab s
                                    else take (length (GetTab s) - 3) (GetTab s))\<rparr>
            in Normal (s1\<lparr>cout := cout s1 @ GateMessageCode key L @ GetSpace L @ MESSAGE s1\<rparr>))"
proof -
  have gate: "GateOnMessageLevel file line key L body s = body s" for body
    using assms(1,2,3) by (simp add: GateOnMessageLevel_known)
  have cont: "GateMessageCont file line key L MESSAGE s =
                Normal (s\<lparr>cout := cout s @ MESSAGE s\<rparr>)"
    by (simp add: GateMessageCont_def gate cout_write_def)
  have inc: "GateMessageInc GetSpace file line key L MESSAGE s =
           Normal (s\<lparr>cout := cout s @ GateMessageCode key L @ GetSpace L @ MESSAGE s,
                     GetTab := GetTab s @ ''   ''\<rparr>)"
    by (simp add: GateMessageInc_def gate cout_write_def IncTab_def)
  have dec: "GateMessageDec GetSpace file line key L MESSAGE s =
           (let s1 = s\<lparr>GetTab := (if length (GetTab s) < 3 then GetTab s
                                    else take (length (GetTab s) - 3) (GetTab s))\<rparr>
            in Normal (s1\<lparr>cout := cout s1 @ GateMessageCode key L @ GetSpace L @ MESSAGE s1\<rparr>))"
    by (simp add: GateMessageDec_def gate cout_write_def DecTab_run [OF assms(4)] Let_def)
  from cont inc dec show ?thesis by simp
qed

text \<open>
  The payload shows the tabulation it is composed in: six spaces for the continuation
  and the increment variant, three for the decrement variant.
\<close>

theorem message_variants_order_witness:
  "GetMessageLevel \<lparr>mMessageLevel = [''Core'' \<mapsto> 5], GetTab = ''      '', cout = []\<rparr> ''Core''
     = 5
   \<and> (0::int) \<le> 5 \<and> (2::int) \<le> 5
   \<and> length (GetTab \<lparr>mMessageLevel = [''Core'' \<mapsto> 5], GetTab = ''      '', cout = []\<rparr>)
       < 2 ^ 64
   \<and> GateMessageCont ''a.cc'' 7 ''Core'' 2 (\<lambda>s. ''<'' @ GetTab s @ ''>'')
         \<lparr>mMessageLevel = [''Core'' \<mapsto> 5], GetTab = ''      '', cout = []\<rparr>
       = Normal \<lparr>mMessageLevel = [''Core'' \<mapsto> 5], GetTab = ''      '', cout = ''<      >''\<rparr>
   \<and> GateMessageInc (\<lambda>n. replicate (nat n) CHR '' '') ''a.cc'' 7 ''Core'' 2
         (\<lambda>s. ''<'' @ GetTab s @ ''>'')
         \<lparr>mMessageLevel = [''Core'' \<mapsto> 5], GetTab = ''      '', cout = []\<rparr>
       = Normal \<lparr>mMessageLevel = [''Core'' \<mapsto> 5], GetTab = ''         '',
                 cout = ''[Core-2]   <      >''\<rparr>
   \<and> GateMessageDec (\<lambda>n. replicate (nat n) CHR '' '') ''a.cc'' 7 ''Core'' 2
         (\<lambda>s. ''<'' @ GetTab s @ ''>'')
         \<lparr>mMessageLevel = [''Core'' \<mapsto> 5], GetTab = ''      '', cout = []\<rparr>
       = Normal \<lparr>mMessageLevel = [''Core'' \<mapsto> 5], GetTab = ''   '',
                 cout = ''[Core-2]   <   >''\<rparr>"
proof -
  have known: "GetMessageLevel \<lparr>mMessageLevel = [''Core'' \<mapsto> 5], GetTab = ''      '',
                                cout = []\<rparr> ''Core'' = 5"
    by (simp add: GetMessageLevel_def)
  have short: "length (GetTab \<lparr>mMessageLevel = [''Core'' \<mapsto> 5], GetTab = ''      '',
                                cout = []\<rparr>) < 2 ^ 64"
    by simp
  have two: "replicate 2 CHR '' '' = ''  ''"
    by (simp add: numeral_2_eq_2)
  from message_variants_order
          [OF known _ _ short, of 2 "''a.cc''" 7 "\<lambda>s. ''<'' @ GetTab s @ ''>''"
              "\<lambda>n. replicate (nat n) CHR '' ''"]
  show ?thesis
    using known short
    by (simp add: GateMessageCode_def show_int_def show_nat.simps digit_def Let_def two)
qed

section \<open>The tabulation behind the level filter\<close>

text \<open>
  C9. When the category is unknown (the level lookup is negative) or the requested
  level is above the category's threshold, the increment and decrement message variants
  and the bare tabulation increment and decrement calls return normally and leave the
  tabulation as it was.
\<close>

theorem tab_unchanged_when_filtered:
  assumes "GetMessageLevel s key < 0 \<or> GetMessageLevel s key < val"
  shows "(\<exists>s'. GateMessageInc GetSpace file line key val MESSAGE s = Normal s'
               \<and> GetTab s' = GetTab s)
       \<and> (\<exists>s'. GateMessageDec GetSpace file line key val MESSAGE s = Normal s'
               \<and> GetTab s' = GetTab s)
       \<and> (\<exists>s'. GateIncTab file line key val s = Normal s' \<and> GetTab s' = GetTab s)
       \<and> (\<exists>s'. GateDecTab file line key val s = Normal s' \<and> GetTab s' = GetTab s)"
proof -
  have gate: "\<exists>s'. GateOnMessageLevel file line key val body s = Normal s'
                   \<and> GetTab s' = GetTab s" for body
  proof (cases "GetMessageLevel s key < 0")
    case True
    then show ?thesis
      by (simp add: GateOnMessageLevel_unknown GateWarning_run)
  next
    case False
    with assms have "GetMessageLevel s key < val"
      by simp
    with False show ?thesis
      by (simp add: GateOnMessageLevel_above)
  qed
  show ?thesis
    unfolding GateMessageInc_def GateMessageDec_def GateIncTab_def GateDecTab_def
    by (intro conjI gate)
qed

text \<open>\<open>Core\<close> at level 5 and calls of level 6, with one unit of tabulation.\<close>

theorem tab_unchanged_when_filtered_witness:
  "(GetMessageLevel \<lparr>mMessageLevel = [''Core'' \<mapsto> 5], GetTab = ''   '', cout = []\<rparr> ''Core'' < 0
    \<or> GetMessageLevel \<lparr>mMessageLevel = [''Core'' \<mapsto> 5], GetTab = ''   '', cout = []\<rparr> ''Core''
        < 6)
   \<and> (\<exists>s'. GateMessageInc (\<lambda>n. replicate (nat n) CHR '' '') ''a.cc'' 7 ''Core'' 6
               (\<lambda>_. ''enter'')
               \<lparr>mMessageLevel = [''Core'' \<mapsto> 5], GetTab = ''   '', cout = []\<rparr> = Normal s'
             \<and> GetTab s' = ''   '')
   \<and> (\<exists>s'. GateMessageDec (\<lambda>n. replicate (nat n) CHR '' '') ''a.cc'' 7 ''Core'' 6
               (\<lambda>_. ''enter'')
               \<lparr>mMessageLevel = [''Core'' \<mapsto> 5], GetTab = ''   '', cout = []\<rparr> = Normal s'
             \<and> GetTab s' = ''   '')
   \<and> (\<exists>s'. GateIncTab ''a.cc'' 7 ''Core'' 6
               \<lparr>mMessageLevel = [''Core'' \<mapsto> 5], GetTab = ''   '', cout = []\<rparr> = Normal s'
             \<and> GetTab s' = ''   '')
   \<and> (\<exists>s'. GateDecTab ''a.cc'' 7 ''Core'' 6
               \<lparr>mMessageLevel = [''Core'' \<mapsto> 5], GetTab = ''   '', cout = []\<rparr> = Normal s'
             \<and> GetTab s' = ''   '')"
proof -
  have above: "GetMessageLevel \<lparr>mMessageLevel = [''Core'' \<mapsto> 5], GetTab = ''   '', cout = []\<rparr>
                 ''Core'' < 0
    \<or> GetMessageLevel \<lparr>mMessageLevel = [''Core'' \<mapsto> 5], GetTab = ''   '', cout = []\<rparr> ''Core''
        < 6"
    by (simp add: GetMessageLevel_def)
  from tab_unchanged_when_filtered
          [OF above, of "\<lambda>n. replicate (nat n) CHR '' ''" "''a.cc''" 7 "\<lambda>_. ''enter''"]
  show ?thesis
    using above by simp
qed

section \<open>Warnings without a Warning entry\<close>

text \<open>
  C10. If \<open>Warning\<close> itself is not registered (its level lookup returns the negative
  not-found value), every warning call leaves the state as it was, the output with it.
  In particular the warning of the level filter for an unknown informational category
  is dropped: every variant of the informational message, called for an unknown
  category, changes nothing and writes nothing.
\<close>

theorem unregistered_Warning_is_silent:
  assumes "GetMessageLevel s ''Warning'' < 0"
  shows "GateWarning file line MESSAGE s = Normal s
       \<and> (GetMessageLevel s key < 0 \<longrightarrow>
            GateMessage GetSpace file line key val MESSAGE s = Normal s
          \<and> GateMessageCont file line key val MESSAGE s = Normal s
          \<and> GateMessageInc GetSpace file line key val MESSAGE s = Normal s
          \<and> GateMessageDec GetSpace file line key val MESSAGE s = Normal s
          \<and> GateIncTab file line key val s = Normal s
          \<and> GateDecTab file line key val s = Normal s)"
proof -
  have warn: "GateWarning f l M s = Normal s" for f l M
    using assms by (simp add: GateWarning_run)
  have "GateOnMessageLevel file line key val body s = Normal s"
    if "GetMessageLevel s key < 0" for body
    using that by (simp add: GateOnMessageLevel_unknown warn)
  then show ?thesis
    by (simp add: warn GateMessage_def GateMessageCont_def GateMessageInc_def
        GateMessageDec_def GateIncTab_def GateDecTab_def)
qed

text \<open>Only \<open>Core\<close> is registered; a warning and a message for \<open>Physics\<close> write nothing.\<close>

theorem unregistered_Warning_is_silent_witness:
  "GetMessageLevel \<lparr>mMessageLevel = [''Core'' \<mapsto> 5], GetTab = ''   '', cout = ''x''\<rparr> ''Warning''
     < 0
   \<and> GetMessageLevel \<lparr>mMessageLevel = [''Core'' \<mapsto> 5], GetTab = ''   '', cout = ''x''\<rparr> ''Physics''
     < 0
   \<and> GateWarning ''a.cc'' 7 (\<lambda>_. ''step'')
         \<lparr>mMessageLevel = [''Core'' \<mapsto> 5], GetTab = ''   '', cout = ''x''\<rparr>
       = Normal \<lparr>mMessageLevel = [''Core'' \<mapsto> 5], GetTab = ''   '', cout = ''x''\<rparr>
   \<and> GateMessage (\<lambda>n. replicate (nat n) CHR '' '') ''a.cc'' 7 ''Physics'' 0 (\<lambda>_. ''step'')
         \<lparr>mMessageLevel = [''Core'' \<mapsto> 5], GetTab = ''   '', cout = ''x''\<rparr>
       = Normal \<lparr>mMessageLevel = [''Core'' \<mapsto> 5], GetTab = ''   '', cout = ''x''\<rparr>"
proof -
  have no_warning: "GetMessageLevel \<lparr>mMessageLevel = [''Core'' \<mapsto> 5], GetTab = ''   '',
                                     cout = ''x''\<rparr> ''Warning'' < 0"
    by (simp add: GetMessageLevel_def)
  have unknown: "GetMessageLevel \<lparr>mMessageLevel = [''Core'' \<mapsto> 5], GetTab = ''   '',
                                  cout = ''x''\<rparr> ''Physics'' < 0"
    by (simp add: GetMessageLevel_def)
  from unregistered_Warning_is_silent
          [OF no_warning, of "''a.cc''" 7 "\<lambda>_. ''step''" "''Physics''"
              "\<lambda>n. replicate (nat n) CHR '' ''" 0]
  show ?thesis
    using no_warning unknown by simp
qed

end
